theory Spec2Isabelle
  imports Complex_Main
begin

section \<open>Conversation projects (project_manager.py)\<close>

text \<open>
  A message is the dictionary \<^verbatim>\<open>{"role": role, "content": content}\<close> that
  \<^verbatim>\<open>add_message\<close> builds. Python strings are modelled as \<^typ>\<open>string\<close>.
\<close>

record message =
  role :: string
  content :: string

text \<open>
  The attributes of \<^verbatim>\<open>ConversationProject\<close>. \<^verbatim>\<open>message_count\<close> is a Python
  integer, hence \<^typ>\<open>int\<close>. \<^verbatim>\<open>created_date\<close> is the formatted reading of the
  clock taken by the constructor; the model receives that reading as an argument.
\<close>

record ConversationProject =
  name :: string
  messages :: "message list"
  created_date :: string
  deep_research_mode :: bool
  message_count :: int

definition ConversationProject_init :: "string \<Rightarrow> string \<Rightarrow> ConversationProject" where
  "ConversationProject_init now project_name =
     \<lparr>name = project_name, messages = [], created_date = now,
      deep_research_mode = False, message_count = 0\<rparr>"

definition add_message :: "ConversationProject \<Rightarrow> string \<Rightarrow> string \<Rightarrow> ConversationProject" where
  "add_message self r c =
     (let new_message = \<lparr>role = r, content = c\<rparr>
      in self\<lparr>messages := messages self @ [new_message],
              message_count := message_count self + 1\<rparr>)"

text \<open>\<^verbatim>\<open>get_messages\<close> returns a deep copy; with values instead of references
  the copy is the list itself.\<close>

definition get_messages :: "ConversationProject \<Rightarrow> message list" where
  "get_messages self = messages self"

definition clear_messages :: "ConversationProject \<Rightarrow> ConversationProject" where
  "clear_messages self = self\<lparr>messages := [], message_count := 0\<rparr>"

definition toggle_research_mode :: "ConversationProject \<Rightarrow> ConversationProject" where
  "toggle_research_mode self = self\<lparr>deep_research_mode := \<not> deep_research_mode self\<rparr>"

text \<open>\<^verbatim>\<open>get_last_message\<close>: the test on the length guards the read of
  \<^verbatim>\<open>self.messages[-1]\<close>; \<^verbatim>\<open>None\<close> is \<^term>\<open>None\<close>.\<close>

definition get_last_message :: "ConversationProject \<Rightarrow> message option" where
  "get_last_message self =
     (if length (messages self) > 0 then Some (last (messages self)) else None)"

text \<open>The calls that change the message list of a project, and their effect in sequence.\<close>

datatype project_call = AddMessage string string | ClearMessages

fun project_step :: "ConversationProject \<Rightarrow> project_call \<Rightarrow> ConversationProject" where
  "project_step p (AddMessage r c) = add_message p r c"
| "project_step p ClearMessages = clear_messages p"

fun project_run :: "ConversationProject \<Rightarrow> project_call list \<Rightarrow> ConversationProject" where
  "project_run p [] = p"
| "project_run p (c # cs) = project_run (project_step p c) cs"

definition count_matches :: "ConversationProject \<Rightarrow> bool" where
  "count_matches p = (message_count p = int (length (messages p)))"


section \<open>The project manager (project_manager.py)\<close>

text \<open>
  \<^verbatim>\<open>self.projects\<close> is a Python dictionary. Its enumeration order is the order of
  insertion and \<^verbatim>\<open>delete_project\<close> reads that order, so the dictionary is an
  association list: a new key goes to the end, an existing key keeps its place, a
  deleted key leaves the order of the others as it was.
\<close>

type_synonym 'v pydict = "(string \<times> 'v) list"

definition dict_keys :: "'v pydict \<Rightarrow> string list" where
  "dict_keys d = map fst d"

definition dict_contains :: "'v pydict \<Rightarrow> string \<Rightarrow> bool" where
  "dict_contains d k = (k \<in> set (dict_keys d))"

fun dict_set :: "'v pydict \<Rightarrow> string \<Rightarrow> 'v \<Rightarrow> 'v pydict" where
  "dict_set [] k v = [(k, v)]"
| "dict_set ((k', v') # d) k v =
     (if k' = k then (k, v) # d else (k', v') # dict_set d k v)"

definition dict_del :: "'v pydict \<Rightarrow> string \<Rightarrow> 'v pydict" where
  "dict_del d k = filter (\<lambda>e. fst e \<noteq> k) d"

definition dict_get :: "'v pydict \<Rightarrow> string \<Rightarrow> 'v option" where
  "dict_get d k = map_of d k"

record ProjectManager =
  projects :: "ConversationProject pydict"
  current_project_name :: "string option"

definition ProjectManager_init :: ProjectManager where
  "ProjectManager_init = \<lparr>projects = [], current_project_name = None\<rparr>"

text \<open>Each method returns its Boolean result together with the manager after the call.
  \<^verbatim>\<open>create_project\<close> also takes the clock reading its new project records.\<close>

definition create_project :: "string \<Rightarrow> ProjectManager \<Rightarrow> string \<Rightarrow> bool \<times> ProjectManager" where
  "create_project now self project_name =
     (if dict_contains (projects self) project_name then (False, self)
      else
        let new_project = ConversationProject_init now project_name;
            self1 = self\<lparr>projects := dict_set (projects self) project_name new_project\<rparr>;
            self2 = (if current_project_name self1 = None
                     then self1\<lparr>current_project_name := Some project_name\<rparr>
                     else self1)
        in (True, self2))"

definition delete_project :: "ProjectManager \<Rightarrow> string \<Rightarrow> bool \<times> ProjectManager" where
  "delete_project self project_name =
     (if \<not> dict_contains (projects self) project_name then (False, self)
      else
        let self1 = self\<lparr>projects := dict_del (projects self) project_name\<rparr>;
            self2 =
              (if current_project_name self1 = Some project_name
               then
                 (let remaining_projects = dict_keys (projects self1)
                  in if length remaining_projects > 0
                     then self1\<lparr>current_project_name := Some (hd remaining_projects)\<rparr>
                     else self1\<lparr>current_project_name := None\<rparr>)
               else self1)
        in (True, self2))"

definition switch_to_project :: "ProjectManager \<Rightarrow> string \<Rightarrow> bool \<times> ProjectManager" where
  "switch_to_project self project_name =
     (if \<not> dict_contains (projects self) project_name then (False, self)
      else (True, self\<lparr>current_project_name := Some project_name\<rparr>))"

definition get_current_project :: "ProjectManager \<Rightarrow> ConversationProject option" where
  "get_current_project self =
     (case current_project_name self of
        None \<Rightarrow> None
      | Some n \<Rightarrow> if \<not> dict_contains (projects self) n then None
                  else dict_get (projects self) n)"

definition get_all_project_names :: "ProjectManager \<Rightarrow> string list" where
  "get_all_project_names self = dict_keys (projects self)"

definition project_exists :: "ProjectManager \<Rightarrow> string \<Rightarrow> bool" where
  "project_exists self project_name = dict_contains (projects self) project_name"

definition get_project_count :: "ProjectManager \<Rightarrow> int" where
  "get_project_count self = int (length (projects self))"

text \<open>The three calls that change the manager. A creation carries the clock reading of
  the moment it is made.\<close>

datatype manager_call =
    CreateProject string string
  | DeleteProject string
  | SwitchToProject string

fun manager_step :: "ProjectManager \<Rightarrow> manager_call \<Rightarrow> bool \<times> ProjectManager" where
  "manager_step m (CreateProject now n) = create_project now m n"
| "manager_step m (DeleteProject n) = delete_project m n"
| "manager_step m (SwitchToProject n) = switch_to_project m n"

fun manager_run :: "ProjectManager \<Rightarrow> manager_call list \<Rightarrow> ProjectManager" where
  "manager_run m [] = m"
| "manager_run m (c # cs) = manager_run (snd (manager_step m c)) cs"

text \<open>The invariant of the active selector: \<^verbatim>\<open>None\<close> only over an empty
  dictionary, and otherwise one of its keys.\<close>

definition selector_ok :: "ProjectManager \<Rightarrow> bool" where
  "selector_ok m =
     (case current_project_name m of
        None \<Rightarrow> projects m = []
      | Some n \<Rightarrow> dict_contains (projects m) n)"

text \<open>A Python dictionary holds each key once.\<close>

definition keys_distinct :: "ProjectManager \<Rightarrow> bool" where
  "keys_distinct m = distinct (dict_keys (projects m))"


section \<open>Strings (the Python built-ins that app.py uses)\<close>

text \<open>
  A \<^typ>\<open>string\<close> is a list of bytes; a Python string outside ASCII is its UTF-8
  encoding. \<^verbatim>\<open>str.lower\<close> and \<^verbatim>\<open>str.strip\<close> follow the character tables of
  Unicode, which are no part of the repository: the adapters take both from the world
  they run in (see \<open>environment\<close> below). On a text of ASCII characters they are the two
  functions defined here, which the concrete runs use.
\<close>

definition ascii_lower :: "char \<Rightarrow> char" where
  "ascii_lower c =
     (let n = (of_char c :: nat) in if 65 \<le> n \<and> n \<le> 90 then char_of (n + 32) else c)"

definition ascii_lower_text :: "string \<Rightarrow> string" where
  "ascii_lower_text s = map ascii_lower s"

fun starts_with :: "string \<Rightarrow> string \<Rightarrow> bool" where
  "starts_with s [] = True"
| "starts_with [] (c # sub) = False"
| "starts_with (d # s) (c # sub) = (d = c \<and> starts_with s sub)"

text \<open>\<^verbatim>\<open>sub in s\<close>: the text \<open>sub\<close> occurs in \<open>s\<close>.\<close>

fun str_in :: "string \<Rightarrow> string \<Rightarrow> bool" where
  "str_in sub [] = (sub = [])"
| "str_in sub (c # s) = (starts_with (c # s) sub \<or> str_in sub s)"

definition is_space :: "char \<Rightarrow> bool" where
  "is_space c =
     (let n = (of_char c :: nat) in (9 \<le> n \<and> n \<le> 13) \<or> (28 \<le> n \<and> n \<le> 32))"

definition ascii_strip :: "string \<Rightarrow> string" where
  "ascii_strip s = rev (dropWhile is_space (rev (dropWhile is_space s)))"

text \<open>\<^verbatim>\<open>str(n)\<close> of an integer, as an f-string prints it.\<close>

fun str_nat :: "nat \<Rightarrow> string" where
  "str_nat n =
     (if n < 10 then [char_of (48 + n)]
      else str_nat (n div 10) @ [char_of (48 + n mod 10)])"

declare str_nat.simps [simp del]

definition str_int :: "int \<Rightarrow> string" where
  "str_int i = (if i < 0 then CHR ''-'' # str_nat (nat (- i)) else str_nat (nat i))"

text \<open>\<^verbatim>\<open>xs[i:]\<close>: a negative start counts from the end and is clamped at the
  beginning of the list; a start beyond the end gives the empty list.\<close>

definition slice_from :: "'a list \<Rightarrow> int \<Rightarrow> 'a list" where
  "slice_from xs i =
     (let n = int (length xs);
          start = (if i < 0 then max (n + i) 0 else min i n)
      in drop (nat start) xs)"

definition newline :: string where
  "newline = [CHR 0x0A]"

definition unlines :: "string list \<Rightarrow> string" where
  "unlines ls = concat (map (\<lambda>l. l @ newline) ls)"

text \<open>The cross mark U+274C that opens every error text, in UTF-8.\<close>

definition cross_mark :: string where
  "cross_mark = [CHR 0xE2, CHR 0x9D, CHR 0x8C]"


section \<open>Configuration (app.py)\<close>

definition DEFAULT_API_PROVIDER :: string where
  "DEFAULT_API_PROVIDER = ''openai''"

definition MAX_CONTEXT_MESSAGES :: int where
  "MAX_CONTEXT_MESSAGES = 10"

definition API_TIMEOUT :: int where
  "API_TIMEOUT = 30"

definition DEEP_RESEARCH_INSTRUCTIONS :: string where
  "DEEP_RESEARCH_INSTRUCTIONS = newline @ unlines
    [''You are operating in DEEP RESEARCH MODE. This means you should:'',
     '''',
     ''1. **THINK STEP-BY-STEP**: Break down complex questions into smaller parts'',
     ''   - Identify what the user is really asking'',
     ''   - Consider multiple aspects of the question'',
     ''   - Build your answer methodically'',
     '''',
     ''2. **PROVIDE COMPREHENSIVE ANALYSIS**: Don't just give quick answers'',
     ''   - Explain the '' @ [CHR 0x22] @ ''why'' @ [CHR 0x22] @ '' behind your recommendations'',
     ''   - Discuss pros and cons of different approaches'',
     ''   - Consider edge cases and potential issues'',
     '''',
     ''3. **USE MULTIPLE PERSPECTIVES**: Look at questions from different angles'',
     ''   - Beginner perspective: Easy to understand explanations'',
     ''   - Advanced perspective: Technical details and best practices'',
     ''   - Practical perspective: Real-world examples and use cases'',
     '''',
     ''4. **BE THOROUGH**: Provide more detail than usual'',
     ''   - Include code examples with detailed comments'',
     ''   - Explain how things work under the hood'',
     ''   - Suggest related topics to explore further'',
     '''',
     ''5. **VERIFY ACCURACY**: Be more careful with information'',
     ''   - Double-check technical details'',
     ''   - Provide context for when advice applies'',
     ''   - Mention any limitations or caveats'',
     '''',
     ''This mode is for users who want deep understanding, not just quick answers.'']"

definition NORMAL_MODE_INSTRUCTIONS :: string where
  "NORMAL_MODE_INSTRUCTIONS = newline @ unlines
    [''You are an expert Obsidian assistant. Provide clear, concise, and practical answers.'',
     ''Focus on being helpful and accurate while keeping responses reasonably brief.'',
     ''Include code examples when helpful, but keep explanations focused.'']"


section \<open>The world outside the adapters\<close>

text \<open>
  What the chat adapter hands to \<^verbatim>\<open>client.chat.completions.create\<close>. The
  temperature is the decimal literal of the source, as the rational number it denotes.
\<close>

record openai_request =
  oa_api_key :: string
  oa_model :: string
  oa_messages :: "message list"
  oa_temperature :: rat
  oa_max_tokens :: int
  oa_timeout :: int

text \<open>
  What the call gives back: the text of \<^verbatim>\<open>response.choices[0].message.content\<close>,
  or an exception, raised by the call or by reading the reply, with its text
  \<^verbatim>\<open>str(error)\<close>.
\<close>

datatype openai_outcome = OpenAI_Content string | OpenAI_Error string

text \<open>What the completion adapter hands to \<^verbatim>\<open>requests.post\<close>.\<close>

record hf_request =
  hf_url :: string
  hf_headers :: "(string \<times> string) list"
  hf_inputs :: string
  hf_max_length :: int
  hf_temperature :: rat
  hf_return_full_text :: bool
  hf_timeout :: int

text \<open>
  The body of a reply: \<^verbatim>\<open>response.json()[0]["generated_text"]\<close> when that read
  succeeds, otherwise the text of the exception the read raises.
\<close>

datatype hf_body = Generated string | Unreadable string

text \<open>
  What \<^verbatim>\<open>requests.post\<close> does: it raises \<^verbatim>\<open>requests.exceptions.Timeout\<close>, it
  raises another exception with text \<^verbatim>\<open>str(error)\<close>, or it returns a reply with a
  status code and a body.
\<close>

datatype hf_outcome = HF_Timeout | HF_Error string | HF_Response int hf_body

text \<open>A call that leaves the process, as the adapters make them.\<close>

datatype net_call = OpenAI_Call openai_request | HF_Call hf_request

text \<open>
  Everything the adapters read from outside: the secrets file (a key that is not there
  is \<^term>\<open>None\<close>; the source reads it under \<^verbatim>\<open>try\<close> and gets \<^verbatim>\<open>None\<close>), the
  selections kept in the session state, the text that
  \<^verbatim>\<open>get_all_examples_as_context()\<close> returns, the construction of the client
  (\<^term>\<open>Some e\<close> when \<^verbatim>\<open>OpenAI(api_key=...)\<close> raises an exception with text \<open>e\<close>), and
  the two providers as functions of the request they receive. The client is built with
  the settings of its library, so one invocation of \<^verbatim>\<open>create\<close> sends as many HTTP
  requests as the library decides (it sends a request again after some failures):
  \<open>openai_http_attempts\<close> is that number. \<open>str_lower\<close> and \<open>str_strip\<close> are Python's
  \<^verbatim>\<open>str.lower\<close> and \<^verbatim>\<open>str.strip\<close>.
\<close>

record environment =
  secrets :: "string \<Rightarrow> string option"
  selected_api_provider :: string
  selected_openai_model :: string
  selected_hf_model :: string
  obsidian_context :: string
  openai_client_init :: "string \<Rightarrow> string option"
  openai_create :: "openai_request \<Rightarrow> openai_outcome"
  openai_http_attempts :: "openai_request \<Rightarrow> nat"
  requests_post :: "hf_request \<Rightarrow> hf_outcome"
  str_lower :: "string \<Rightarrow> string"
  str_strip :: "string \<Rightarrow> string"

text \<open>The dictionary \<^verbatim>\<open>{"success": ..., "response": ...}\<close> that every adapter returns.\<close>

record api_result =
  success :: bool
  response :: string


section \<open>The adapters (app.py)\<close>

definition get_api_provider :: "environment \<Rightarrow> string" where
  "get_api_provider env =
     (case secrets env ''API_PROVIDER'' of
        None \<Rightarrow> str_lower env DEFAULT_API_PROVIDER
      | Some provider \<Rightarrow> str_lower env provider)"

definition get_api_key :: "environment \<Rightarrow> string option \<Rightarrow> string option" where
  "get_api_key env provider =
     (let provider1 = (case provider of None \<Rightarrow> get_api_provider env | Some p \<Rightarrow> p)
      in if provider1 = ''openai'' then secrets env ''OPENAI_API_KEY''
         else secrets env ''HF_API_KEY'')"

text \<open>The handler \<^verbatim>\<open>except Exception as error\<close> of the chat adapter. Its three
  branches are tried in the order of the source.\<close>

datatype openai_failure = AuthenticationFailure | QuotaFailure | GeneralFailure

definition openai_failure_class :: "environment \<Rightarrow> string \<Rightarrow> openai_failure" where
  "openai_failure_class env error_message =
     (if str_in ''authentication'' (str_lower env error_message)
         \<or> str_in ''api key'' (str_lower env error_message) then AuthenticationFailure
      else if str_in ''quota'' (str_lower env error_message)
         \<or> str_in ''billing'' (str_lower env error_message) then QuotaFailure
      else GeneralFailure)"

fun openai_failure_text :: "openai_failure \<Rightarrow> string \<Rightarrow> string" where
  "openai_failure_text AuthenticationFailure error_message =
     cross_mark @ '' Invalid OpenAI API key. Please check your OPENAI_API_KEY in secrets.toml''"
| "openai_failure_text QuotaFailure error_message =
     cross_mark @ '' OpenAI API quota exceeded. Please check your billing at https://platform.openai.com/account/billing''"
| "openai_failure_text GeneralFailure error_message =
     cross_mark @ '' OpenAI API Error: '' @ error_message"

definition openai_except :: "environment \<Rightarrow> string \<Rightarrow> api_result" where
  "openai_except env error_message =
     \<lparr>success = False,
      response = openai_failure_text (openai_failure_class env error_message) error_message\<rparr>"

definition methodology :: "bool \<Rightarrow> string" where
  "methodology use_deep_research =
     (if use_deep_research then DEEP_RESEARCH_INSTRUCTIONS else NORMAL_MODE_INSTRUCTIONS)"

definition openai_system_prompt :: "environment \<Rightarrow> bool \<Rightarrow> string" where
  "openai_system_prompt env use_deep_research =
     methodology use_deep_research
     @ newline @ newline @ ''=== OBSIDIAN KNOWLEDGE BASE ==='' @ newline
     @ obsidian_context env
     @ newline @ newline
     @ ''Remember: Help users master Obsidian with clear explanations and practical examples.''"

definition openai_messages :: "environment \<Rightarrow> string \<Rightarrow> message list \<Rightarrow> bool \<Rightarrow> message list" where
  "openai_messages env user_message conversation_history use_deep_research =
     (let messages0 = [\<lparr>role = ''system'', content = openai_system_prompt env use_deep_research\<rparr>];
          recent_messages = slice_from conversation_history (- MAX_CONTEXT_MESSAGES);
          messages1 = messages0 @ map (\<lambda>m. \<lparr>role = role m, content = content m\<rparr>) recent_messages
      in messages1 @ [\<lparr>role = ''user'', content = user_message\<rparr>])"

text \<open>The arguments of \<^verbatim>\<open>client.chat.completions.create\<close>, with the client's key.\<close>

definition openai_request_of ::
  "environment \<Rightarrow> string \<Rightarrow> string \<Rightarrow> message list \<Rightarrow> bool \<Rightarrow> openai_request" where
  "openai_request_of env api_key user_message conversation_history use_deep_research =
     (let temperature = (if use_deep_research then 0.5 else 0.7);
          max_tokens = (if use_deep_research then 2500 else 1000)
      in \<lparr>oa_api_key = api_key,
          oa_model = selected_openai_model env,
          oa_messages = openai_messages env user_message conversation_history use_deep_research,
          oa_temperature = temperature,
          oa_max_tokens = max_tokens,
          oa_timeout = API_TIMEOUT\<rparr>)"

definition send_message_to_openai ::
  "environment \<Rightarrow> string \<Rightarrow> message list \<Rightarrow> bool \<Rightarrow> api_result \<times> net_call list" where
  "send_message_to_openai env user_message conversation_history use_deep_research =
     (case get_api_key env (Some ''openai'') of
        None \<Rightarrow>
          (\<lparr>success = False,
            response = cross_mark @ '' OpenAI API key not found. Please set OPENAI_API_KEY in .streamlit/secrets.toml''\<rparr>,
           [])
      | Some api_key \<Rightarrow>
          (case openai_client_init env api_key of
             Some error_message \<Rightarrow> (openai_except env error_message, [])
           | None \<Rightarrow>
               let request =
                     openai_request_of env api_key user_message conversation_history
                       use_deep_research
               in (case openai_create env request of
                     OpenAI_Content ai_response \<Rightarrow>
                       (\<lparr>success = True, response = str_strip env ai_response\<rparr>,
                        [OpenAI_Call request])
                   | OpenAI_Error error_message \<Rightarrow>
                       (openai_except env error_message, [OpenAI_Call request]))))"

definition hf_line :: "message \<Rightarrow> string" where
  "hf_line m =
     (if role m = ''user'' then ''User: '' @ content m @ newline
      else ''Assistant: '' @ content m @ newline)"

definition hf_prompt_head :: "environment \<Rightarrow> bool \<Rightarrow> string" where
  "hf_prompt_head env use_deep_research =
     methodology use_deep_research
     @ newline @ newline @ ''=== OBSIDIAN KNOWLEDGE BASE ==='' @ newline
     @ obsidian_context env
     @ newline @ newline @ ''=== CONVERSATION ==='' @ newline @ newline"

definition hf_prompt :: "environment \<Rightarrow> string \<Rightarrow> message list \<Rightarrow> bool \<Rightarrow> string" where
  "hf_prompt env user_message conversation_history use_deep_research =
     (let full_prompt0 = hf_prompt_head env use_deep_research;
          recent_messages = slice_from conversation_history (- MAX_CONTEXT_MESSAGES);
          full_prompt1 = full_prompt0 @ concat (map hf_line recent_messages);
          full_prompt2 = full_prompt1 @ ''User: '' @ user_message @ newline
      in full_prompt2 @ ''Assistant: '')"

text \<open>The arguments of \<^verbatim>\<open>requests.post\<close>: address, headers, payload and timeout.\<close>

definition hf_request_of ::
  "environment \<Rightarrow> string \<Rightarrow> string \<Rightarrow> message list \<Rightarrow> bool \<Rightarrow> hf_request" where
  "hf_request_of env api_key user_message conversation_history use_deep_research =
     (let api_url = ''https://api-inference.huggingface.co/models/'' @ selected_hf_model env;
          headers = [(''Authorization'', ''Bearer '' @ api_key),
                     (''Content-Type'', ''application/json'')];
          max_length = (if use_deep_research then 1500 else 500);
          temperature = (if use_deep_research then 0.5 else 0.7)
      in \<lparr>hf_url = api_url,
          hf_headers = headers,
          hf_inputs = hf_prompt env user_message conversation_history use_deep_research,
          hf_max_length = max_length,
          hf_temperature = temperature,
          hf_return_full_text = False,
          hf_timeout = API_TIMEOUT\<rparr>)"

definition send_message_to_huggingface ::
  "environment \<Rightarrow> string \<Rightarrow> message list \<Rightarrow> bool \<Rightarrow> api_result \<times> net_call list" where
  "send_message_to_huggingface env user_message conversation_history use_deep_research =
     (case get_api_key env (Some ''huggingface'') of
        None \<Rightarrow>
          (\<lparr>success = False,
            response = cross_mark @ '' Hugging Face API key not found. Please set HF_API_KEY in .streamlit/secrets.toml''\<rparr>,
           [])
      | Some api_key \<Rightarrow>
          let request =
                hf_request_of env api_key user_message conversation_history use_deep_research
          in (case requests_post env request of
                HF_Response status_code body \<Rightarrow>
                  (if status_code = 200 then
                     (case body of
                        Generated ai_response \<Rightarrow>
                          (\<lparr>success = True, response = str_strip env ai_response\<rparr>,
                           [HF_Call request])
                      | Unreadable error_message \<Rightarrow>
                          (\<lparr>success = False,
                            response = cross_mark @ '' Unexpected error: '' @ error_message\<rparr>,
                           [HF_Call request]))
                   else
                     (\<lparr>success = False,
                       response = cross_mark @ '' API Error: Status code '' @ str_int status_code
                         @ ''. The AI service might be busy. Try again in a moment.''\<rparr>,
                      [HF_Call request]))
              | HF_Timeout \<Rightarrow>
                  (\<lparr>success = False,
                    response = cross_mark @ '' Request timed out after '' @ str_int API_TIMEOUT
                      @ '' seconds. The AI service might be overloaded. Please try again.''\<rparr>,
                   [HF_Call request])
              | HF_Error error_message \<Rightarrow>
                  (\<lparr>success = False,
                    response = cross_mark @ '' Unexpected error: '' @ error_message\<rparr>,
                   [HF_Call request])))"

definition send_message_to_ai ::
  "environment \<Rightarrow> string \<Rightarrow> message list \<Rightarrow> bool \<Rightarrow> api_result \<times> net_call list" where
  "send_message_to_ai env user_message conversation_history use_deep_research =
     (let provider = selected_api_provider env
      in if provider = ''openai''
         then send_message_to_openai env user_message conversation_history use_deep_research
         else send_message_to_huggingface env user_message conversation_history use_deep_research)"

text \<open>
  The part of \<^verbatim>\<open>render_chat_interface\<close> that handles an input of the user. The chat
  box gives \<^verbatim>\<open>None\<close> or a text, and \<^verbatim>\<open>if user_input:\<close> lets only a non-empty
  text through. The project is the object held in the dictionary of the manager, so what
  the calls of \<^verbatim>\<open>add_message\<close> change is written back under the same key. Drawing on
  the page is left out.
\<close>

definition render_chat_interface ::
  "environment \<Rightarrow> ProjectManager \<Rightarrow> string option \<Rightarrow> ProjectManager \<times> net_call list" where
  "render_chat_interface env manager user_input =
     (case (current_project_name manager, get_current_project manager) of
        (Some key, Some current_project) \<Rightarrow>
          (case user_input of
             None \<Rightarrow> (manager, [])
           | Some text \<Rightarrow>
               if text = [] then (manager, [])
               else
                 let project1 = add_message current_project ''user'' text;
                     conversation_history = get_messages project1;
                     (result, calls) =
                       send_message_to_ai env text conversation_history
                         (deep_research_mode project1);
                     project2 = add_message project1 ''assistant'' (response result)
                 in (manager\<lparr>projects := dict_set (projects manager) key project2\<rparr>,
                     calls))
      | _ \<Rightarrow> (manager, []))"

text \<open>What is read off a call for the statements below: its sampling temperature and
  its bound on the length of the output.\<close>

fun call_temperature :: "net_call \<Rightarrow> rat" where
  "call_temperature (OpenAI_Call r) = oa_temperature r"
| "call_temperature (HF_Call r) = hf_temperature r"

fun call_max_output :: "net_call \<Rightarrow> int" where
  "call_max_output (OpenAI_Call r) = oa_max_tokens r"
| "call_max_output (HF_Call r) = hf_max_length r"




text \<open>
  A world for concrete runs: the secrets are the listed pairs, the client is built
  without an exception and sends one request for each invocation, and each provider gives
  the same outcome whatever it is sent. The texts of these runs are ASCII.
\<close>

definition fixed_world ::
  "(string \<times> string) list \<Rightarrow> string \<Rightarrow> openai_outcome \<Rightarrow> hf_outcome \<Rightarrow> environment" where
  "fixed_world keys provider oa hf =
     \<lparr>secrets = map_of keys,
      selected_api_provider = provider,
      selected_openai_model = ''gpt-3.5-turbo'',
      selected_hf_model = ''microsoft/DialoGPT-medium'',
      obsidian_context = ''=== YOUR ROLE ==='',
      openai_client_init = (\<lambda>api_key. None),
      openai_create = (\<lambda>request. oa),
      openai_http_attempts = (\<lambda>request. 1),
      requests_post = (\<lambda>request. hf),
      str_lower = ascii_lower_text,
      str_strip = ascii_strip\<rparr>"

text \<open>A history of fifteen messages, user and assistant in turn.\<close>

definition sample_history :: "message list" where
  "sample_history =
     [\<lparr>role = ''user'', content = ''m1''\<rparr>, \<lparr>role = ''assistant'', content = ''m2''\<rparr>,
      \<lparr>role = ''user'', content = ''m3''\<rparr>, \<lparr>role = ''assistant'', content = ''m4''\<rparr>,
      \<lparr>role = ''user'', content = ''m5''\<rparr>, \<lparr>role = ''assistant'', content = ''m6''\<rparr>,
      \<lparr>role = ''user'', content = ''m7''\<rparr>, \<lparr>role = ''assistant'', content = ''m8''\<rparr>,
      \<lparr>role = ''user'', content = ''m9''\<rparr>, \<lparr>role = ''assistant'', content = ''m10''\<rparr>,
      \<lparr>role = ''user'', content = ''m11''\<rparr>, \<lparr>role = ''assistant'', content = ''m12''\<rparr>,
      \<lparr>role = ''user'', content = ''m13''\<rparr>, \<lparr>role = ''assistant'', content = ''m14''\<rparr>,
      \<lparr>role = ''user'', content = ''m15''\<rparr>]"


section \<open>Properties of the dictionary model\<close>

lemma dict_keys_set_absent:
  "k \<notin> set (dict_keys d) \<Longrightarrow> dict_keys (dict_set d k v) = dict_keys d @ [k]"
  by (induction d k v rule: dict_set.induct) (auto simp: dict_keys_def)

lemma dict_keys_set_present:
  "k \<in> set (dict_keys d) \<Longrightarrow> dict_keys (dict_set d k v) = dict_keys d"
  by (induction d k v rule: dict_set.induct) (auto simp: dict_keys_def)

lemma dict_contains_set: "dict_contains (dict_set d k v) k' = (k' = k \<or> dict_contains d k')"
  by (induction d k v rule: dict_set.induct) (auto simp: dict_contains_def dict_keys_def)

lemma dict_set_not_empty: "dict_set d k v \<noteq> []"
  by (cases d) (auto split: if_splits)

lemma dict_keys_del: "dict_keys (dict_del d k) = removeAll k (dict_keys d)"
  by (induction d) (auto simp: dict_keys_def dict_del_def)

lemma dict_contains_del: "dict_contains (dict_del d k) k' = (k' \<noteq> k \<and> dict_contains d k')"
  by (auto simp: dict_contains_def dict_keys_del)

lemma dict_contains_Nil: "\<not> dict_contains [] k"
  by (simp add: dict_contains_def dict_keys_def)

lemma dict_get_del: "k' \<noteq> k \<Longrightarrow> dict_get (dict_del d k) k' = dict_get d k'"
  by (induction d) (auto simp: dict_get_def dict_del_def)

lemma dict_contains_hd: "d \<noteq> [] \<Longrightarrow> dict_contains d (hd (dict_keys d))"
  by (cases d) (auto simp: dict_contains_def dict_keys_def)

lemma dict_keys_Nil: "(dict_keys d = []) = (d = [])"
  by (simp add: dict_keys_def)


section \<open>The invariant of the active selector\<close>

lemma selector_ok_init: "selector_ok ProjectManager_init"
  by (simp add: selector_ok_def ProjectManager_init_def)

lemma selector_ok_create:
  "selector_ok m \<Longrightarrow> selector_ok (snd (create_project now m n))"
  by (auto simp: selector_ok_def create_project_def Let_def dict_contains_set
      dict_set_not_empty split: option.splits)

lemma selector_ok_delete:
  assumes "selector_ok m"
  shows "selector_ok (snd (delete_project m n))"
proof (cases "dict_contains (projects m) n")
  case False
  then show ?thesis using assms by (simp add: delete_project_def)
next
  case present: True
  let ?d = "dict_del (projects m) n"
  show ?thesis
  proof (cases "current_project_name m = Some n")
    case True
    then show ?thesis
      using present
      by (simp add: delete_project_def Let_def selector_ok_def dict_keys_Nil dict_contains_hd)
  next
    case False
    then obtain k where k: "current_project_name m = Some k" "k \<noteq> n"
      using assms present
      by (cases "current_project_name m") (auto simp: selector_ok_def dict_contains_Nil)
    then have "dict_contains (projects m) k"
      using assms by (simp add: selector_ok_def)
    then have "dict_contains ?d k"
      using k by (simp add: dict_contains_del)
    then show ?thesis
      using present k by (simp add: delete_project_def Let_def selector_ok_def)
  qed
qed

lemma selector_ok_switch:
  "selector_ok m \<Longrightarrow> selector_ok (snd (switch_to_project m n))"
  by (auto simp: selector_ok_def switch_to_project_def split: option.splits)

lemma selector_ok_step: "selector_ok m \<Longrightarrow> selector_ok (snd (manager_step m c))"
  by (cases c) (simp_all add: selector_ok_create selector_ok_delete selector_ok_switch)

lemma selector_ok_run: "selector_ok m \<Longrightarrow> selector_ok (manager_run m cs)"
  by (induction cs arbitrary: m) (simp_all add: selector_ok_step)

lemma keys_distinct_step: "keys_distinct m \<Longrightarrow> keys_distinct (snd (manager_step m c))"
proof (cases c)
  case (CreateProject now n)
  assume "keys_distinct m"
  then show ?thesis
    using CreateProject
    by (auto simp: keys_distinct_def create_project_def Let_def dict_contains_def
        dict_keys_set_absent)
next
  case (DeleteProject n)
  assume "keys_distinct m"
  then show ?thesis
    using DeleteProject
    by (auto simp: keys_distinct_def delete_project_def Let_def dict_keys_del distinct_removeAll)
next
  case (SwitchToProject n)
  assume "keys_distinct m"
  then show ?thesis
    using SwitchToProject by (auto simp: keys_distinct_def switch_to_project_def)
qed

lemma keys_distinct_run: "keys_distinct m \<Longrightarrow> keys_distinct (manager_run m cs)"
  by (induction cs arbitrary: m) (simp_all add: keys_distinct_step)

text \<open>
  Claim C1. Whatever sequence of \<^verbatim>\<open>create_project\<close>, \<^verbatim>\<open>delete_project\<close> and
  \<^verbatim>\<open>switch_to_project\<close> calls is made on a fresh manager, afterwards
  \<^verbatim>\<open>current_project_name\<close> is \<^verbatim>\<open>None\<close> only if the dictionary of projects is empty,
  and otherwise it is one of its keys. The sequence is arbitrary, so the invariant holds
  after every call of it.
\<close>

theorem selector_invariant:
  "selector_ok (manager_run ProjectManager_init cs)"
  by (rule selector_ok_run [OF selector_ok_init])

theorem selector_invariant_witness:
  "selector_ok (manager_run ProjectManager_init
     [CreateProject ''t0'' ''A'', CreateProject ''t1'' ''B'', SwitchToProject ''B'',
      DeleteProject ''B'', DeleteProject ''A''])"
  using selector_invariant
    [of "[CreateProject ''t0'' ''A'', CreateProject ''t1'' ''B'', SwitchToProject ''B'',
          DeleteProject ''B'', DeleteProject ''A'']"]
  by simp

section \<open>Creating a project under a name that is taken\<close>

text \<open>
  Claim C2. When the name is already a key of the dictionary, \<^verbatim>\<open>create_project\<close>
  returns \<^verbatim>\<open>False\<close> and the manager after the call is the manager before it: the
  same projects with the same messages, under the same keys in the same order, and the
  same \<^verbatim>\<open>current_project_name\<close>. The call is a total function, so nothing is raised.
\<close>

theorem create_project_existing:
  "dict_contains (projects m) n \<Longrightarrow> create_project now m n = (False, m)"
  by (simp add: create_project_def)

theorem create_project_existing_witness:
  "create_project ''t1'' (snd (create_project ''t0'' ProjectManager_init ''A'')) ''A''
     = (False, snd (create_project ''t0'' ProjectManager_init ''A''))"
proof -
  have "dict_contains (projects (snd (create_project ''t0'' ProjectManager_init ''A''))) ''A''"
    by (simp add: create_project_def ProjectManager_init_def dict_contains_def dict_keys_def)
  then show ?thesis by (rule create_project_existing)
qed

section \<open>The message counter\<close>

lemma count_matches_step: "count_matches p \<Longrightarrow> count_matches (project_step p c)"
  by (cases c) (simp_all add: count_matches_def add_message_def clear_messages_def)

lemma count_matches_run: "count_matches p \<Longrightarrow> count_matches (project_run p cs)"
  by (induction cs arbitrary: p) (simp_all add: count_matches_step)

lemma count_matches_init: "count_matches (ConversationProject_init now n)"
  by (simp add: count_matches_def ConversationProject_init_def)

text \<open>
  Claim C8. A project as the constructor makes it has \<^verbatim>\<open>message_count\<close> equal to
  the length of \<^verbatim>\<open>messages\<close>, and \<^verbatim>\<open>add_message\<close> and \<^verbatim>\<open>clear_messages\<close>
  keep the two equal: after every sequence of these calls, on a new project or on any
  project where the two agree, they agree.
\<close>

theorem message_count_invariant:
  "count_matches (project_run (ConversationProject_init now n) cs)
   \<and> (count_matches p \<longrightarrow> count_matches (project_run p cs))"
  by (simp add: count_matches_run count_matches_init)

theorem message_count_invariant_witness:
  "message_count (project_run (ConversationProject_init ''t0'' ''A'')
       [AddMessage ''user'' ''q'', AddMessage ''assistant'' ''a'', ClearMessages,
        AddMessage ''user'' ''r'']) = 1
   \<and> length (messages (project_run (ConversationProject_init ''t0'' ''A'')
       [AddMessage ''user'' ''q'', AddMessage ''assistant'' ''a'', ClearMessages,
        AddMessage ''user'' ''r''])) = 1"
  using message_count_invariant [of "''t0''" "''A''"
      "[AddMessage ''user'' ''q'', AddMessage ''assistant'' ''a'', ClearMessages,
        AddMessage ''user'' ''r'']" "ConversationProject_init ''t0'' ''A''"]
  by (simp add: count_matches_def add_message_def clear_messages_def ConversationProject_init_def)

section \<open>The last message\<close>

text \<open>
  Claim C9. \<^verbatim>\<open>get_last_message\<close> has a result for every project: \<^verbatim>\<open>None\<close> when
  there is no message, and the final element of \<^verbatim>\<open>messages\<close> when there is one.
  Straight after \<^verbatim>\<open>clear_messages\<close> it returns \<^verbatim>\<open>None\<close> and \<^verbatim>\<open>message_count\<close>
  is 0.
\<close>

theorem get_last_message_total:
  "(messages p = [] \<longrightarrow> get_last_message p = None)
   \<and> (messages p = xs @ [x] \<longrightarrow> get_last_message p = Some x)
   \<and> get_last_message (clear_messages p) = None
   \<and> message_count (clear_messages p) = 0"
  by (simp add: get_last_message_def clear_messages_def)


theorem get_last_message_total_witness:
  "get_last_message (add_message (ConversationProject_init ''t0'' ''A'') ''user'' ''q'')
     = Some \<lparr>role = ''user'', content = ''q''\<rparr>
   \<and> get_last_message (ConversationProject_init ''t0'' ''A'') = None"
  using get_last_message_total
      [of "add_message (ConversationProject_init ''t0'' ''A'') ''user'' ''q''" "[]"
          "\<lparr>role = ''user'', content = ''q''\<rparr>"]
    get_last_message_total [of "ConversationProject_init ''t0'' ''A''" "[]" "\<lparr>role = ''user'', content = ''q''\<rparr>"]
  by (simp add: add_message_def ConversationProject_init_def)

section \<open>Deleting a project\<close>

text \<open>
  Claim C3. When the name is a key of the dictionary, \<^verbatim>\<open>delete_project\<close> returns
  \<^verbatim>\<open>True\<close> and removes that entry, leaving every other entry and the order of the
  keys as they were. If the entry removed was the active one, the active name becomes the
  first key that remains, and \<^verbatim>\<open>None\<close> when no key remains; otherwise it stays.
  The order of the keys is the order of insertion: a new name goes to the end. The
  scenario of the specification runs as it is written: create A, create A again
  (\<^verbatim>\<open>False\<close>, one project), create B (two projects, A active), delete A (B active),
  delete B (no active name, no project).
\<close>

theorem delete_project_present:
  assumes "dict_contains (projects m) n"
  shows "fst (delete_project m n) = True
    \<and> dict_keys (projects (snd (delete_project m n))) = removeAll n (dict_keys (projects m))
    \<and> \<not> dict_contains (projects (snd (delete_project m n))) n
    \<and> (\<forall>k. k \<noteq> n \<longrightarrow>
          dict_get (projects (snd (delete_project m n))) k = dict_get (projects m) k)
    \<and> current_project_name (snd (delete_project m n)) =
        (if current_project_name m = Some n
         then (case dict_keys (projects (snd (delete_project m n))) of
                 [] \<Rightarrow> None
               | k # ks \<Rightarrow> Some k)
         else current_project_name m)
    \<and> (\<not> dict_contains (projects m') n' \<longrightarrow>
          dict_keys (projects (snd (create_project now m' n'))) = dict_keys (projects m') @ [n'])
    \<and> (let m0 = ProjectManager_init;
            (r1, m1) = create_project t1 m0 ''A'';
            (r2, m2) = create_project t2 m1 ''A'';
            (r3, m3) = create_project t3 m2 ''B'';
            (r4, m4) = delete_project m3 ''A'';
            (r5, m5) = delete_project m4 ''B''
        in r1 \<and> \<not> r2 \<and> get_project_count m2 = 1
           \<and> r3 \<and> get_project_count m3 = 2 \<and> current_project_name m3 = Some ''A''
           \<and> r4 \<and> current_project_name m4 = Some ''B''
           \<and> r5 \<and> current_project_name m5 = None \<and> get_project_count m5 = 0)"
proof -
  let ?m = "snd (delete_project m n)"
  have proj: "projects ?m = dict_del (projects m) n"
    using assms by (simp add: delete_project_def Let_def)
  have a: "fst (delete_project m n) = True"
    using assms by (simp add: delete_project_def Let_def)
  have b: "dict_keys (projects ?m) = removeAll n (dict_keys (projects m))"
    by (simp add: proj dict_keys_del)
  have c: "\<not> dict_contains (projects ?m) n"
    by (simp add: proj dict_contains_del)
  have d: "\<forall>k. k \<noteq> n \<longrightarrow> dict_get (projects ?m) k = dict_get (projects m) k"
    by (simp add: proj dict_get_del)
  have e: "current_project_name ?m =
        (if current_project_name m = Some n
         then (case dict_keys (projects ?m) of [] \<Rightarrow> None | k # ks \<Rightarrow> Some k)
         else current_project_name m)"
    using assms by (auto simp: delete_project_def Let_def split: list.splits)
  have f: "\<not> dict_contains (projects m') n' \<longrightarrow>
          dict_keys (projects (snd (create_project now m' n'))) = dict_keys (projects m') @ [n']"
    by (simp add: create_project_def Let_def dict_contains_def dict_keys_set_absent)
  have g: "(let m0 = ProjectManager_init;
            (r1, m1) = create_project t1 m0 ''A'';
            (r2, m2) = create_project t2 m1 ''A'';
            (r3, m3) = create_project t3 m2 ''B'';
            (r4, m4) = delete_project m3 ''A'';
            (r5, m5) = delete_project m4 ''B''
        in r1 \<and> \<not> r2 \<and> get_project_count m2 = 1
           \<and> r3 \<and> get_project_count m3 = 2 \<and> current_project_name m3 = Some ''A''
           \<and> r4 \<and> current_project_name m4 = Some ''B''
           \<and> r5 \<and> current_project_name m5 = None \<and> get_project_count m5 = 0)"
    by (simp add: ProjectManager_init_def create_project_def delete_project_def Let_def
        dict_contains_def dict_keys_def dict_del_def get_project_count_def)
  from a b c d e f g show ?thesis by blast
qed

theorem delete_project_present_witness:
  "delete_project
     (snd (create_project ''t1'' (snd (create_project ''t0'' ProjectManager_init ''A'')) ''B''))
     ''A''
   = (True, \<lparr>projects = [(''B'', ConversationProject_init ''t1'' ''B'')],
             current_project_name = Some ''B''\<rparr>)"
proof -
  let ?m = "snd (create_project ''t1'' (snd (create_project ''t0'' ProjectManager_init ''A'')) ''B'')"
  have h: "dict_contains (projects ?m) ''A''"
    by (simp add: ProjectManager_init_def create_project_def Let_def
        dict_contains_def dict_keys_def)
  have p: "projects (snd (delete_project ?m ''A'')) = [(''B'', ConversationProject_init ''t1'' ''B'')]"
    by (simp add: ProjectManager_init_def create_project_def delete_project_def Let_def
        dict_contains_def dict_keys_def dict_del_def)
  from delete_project_present [OF h, of ProjectManager_init "''x''" "''t''" "''t''" "''t''" "''t''"]
  have "fst (delete_project ?m ''A'') = True"
    and "current_project_name (snd (delete_project ?m ''A'')) =
        (if current_project_name ?m = Some ''A''
         then (case dict_keys (projects (snd (delete_project ?m ''A''))) of
                 [] \<Rightarrow> None
               | k # ks \<Rightarrow> Some k)
         else current_project_name ?m)"
    by blast+
  then have "fst (delete_project ?m ''A'') = True"
    and "current_project_name (snd (delete_project ?m ''A'')) = Some ''B''"
    by (simp_all add: p dict_keys_def)
       (simp add: ProjectManager_init_def create_project_def Let_def dict_contains_def dict_keys_def)
  with p show ?thesis
    by (cases "delete_project ?m ''A''") (auto intro: ProjectManager.equality)
qed

section \<open>What the adapters send\<close>

lemma slice_from_recent: "slice_from h (- MAX_CONTEXT_MESSAGES) = drop (length h - 10) h"
proof -
  have "nat (max (int (length h) - 10) 0) = length h - 10" by simp
  then show ?thesis
    by (simp add: slice_from_def MAX_CONTEXT_MESSAGES_def Let_def)
qed

lemma copy_messages: "map (\<lambda>m. \<lparr>role = role m, content = content m\<rparr>) xs = xs"
  by (induction xs) simp_all

lemma openai_messages_eq:
  "openai_messages env u h f =
     \<lparr>role = ''system'', content = openai_system_prompt env f\<rparr>
       # drop (length h - 10) h @ [\<lparr>role = ''user'', content = u\<rparr>]"
  by (simp add: openai_messages_def Let_def slice_from_recent copy_messages)

lemma hf_prompt_eq:
  "hf_prompt env u h f =
     hf_prompt_head env f @ concat (map hf_line (drop (length h - 10) h))
       @ ''User: '' @ u @ newline @ ''Assistant: ''"
  by (simp add: hf_prompt_def Let_def slice_from_recent)

lemma hf_lines:
  "map hf_line xs =
     map (\<lambda>m. (if role m = ''user'' then ''User: '' else ''Assistant: '') @ content m @ newline) xs"
  by (simp add: hf_line_def)

lemma openai_key: "get_api_key env (Some ''openai'') = secrets env ''OPENAI_API_KEY''"
  by (simp add: get_api_key_def)

lemma hf_key: "get_api_key env (Some ''huggingface'') = secrets env ''HF_API_KEY''"
  by (simp add: get_api_key_def)

lemma openai_calls:
  assumes "secrets env ''OPENAI_API_KEY'' = Some k" and "openai_client_init env k = None"
  shows "snd (send_message_to_openai env u h f) = [OpenAI_Call (openai_request_of env k u h f)]"
  using assms
  by (simp add: send_message_to_openai_def openai_key Let_def split: openai_outcome.splits)

lemma openai_calls_cases:
  "snd (send_message_to_openai env u h f) = []
   \<or> (\<exists>k. snd (send_message_to_openai env u h f) = [OpenAI_Call (openai_request_of env k u h f)])"
proof (cases "secrets env ''OPENAI_API_KEY''")
  case None
  then show ?thesis by (simp add: send_message_to_openai_def openai_key)
next
  case (Some k)
  show ?thesis
  proof (cases "openai_client_init env k")
    case None
    with Some show ?thesis using openai_calls by blast
  next
    case (Some e)
    with \<open>secrets env ''OPENAI_API_KEY'' = Some k\<close> show ?thesis
      by (simp add: send_message_to_openai_def openai_key)
  qed
qed

lemma hf_calls:
  assumes "secrets env ''HF_API_KEY'' = Some k"
  shows "snd (send_message_to_huggingface env u h f) = [HF_Call (hf_request_of env k u h f)]"
  using assms
  by (simp add: send_message_to_huggingface_def hf_key Let_def
      split: hf_outcome.splits hf_body.splits)

lemma hf_calls_cases:
  "snd (send_message_to_huggingface env u h f) = []
   \<or> (\<exists>k. snd (send_message_to_huggingface env u h f) = [HF_Call (hf_request_of env k u h f)])"
proof (cases "secrets env ''HF_API_KEY''")
  case None
  then show ?thesis by (simp add: send_message_to_huggingface_def hf_key)
next
  case (Some k)
  then show ?thesis using hf_calls by blast
qed

lemma openai_depends_on_messages:
  assumes "openai_messages env u h f = openai_messages env u h' f"
  shows "send_message_to_openai env u h f = send_message_to_openai env u h' f"
  unfolding send_message_to_openai_def openai_request_of_def assms by (rule refl)

lemma hf_depends_on_prompt:
  assumes "hf_prompt env u h f = hf_prompt env u h' f"
  shows "send_message_to_huggingface env u h f = send_message_to_huggingface env u h' f"
  unfolding send_message_to_huggingface_def hf_request_of_def assms by (rule refl)

text \<open>
  Claim C4. Each adapter takes \<^verbatim>\<open>conversation_history[-MAX_CONTEXT_MESSAGES:]\<close>, the
  last ten messages of the history (all of it when it has ten or fewer), and puts these,
  in order and unchanged, between the system prompt and the new user message (chat
  adapter) or, each as a line \<^verbatim>\<open>User: ...\<close> or \<^verbatim>\<open>Assistant: ...\<close>, between the head of
  the prompt and the new user line (completion adapter). A history of 15 messages is cut
  to its last 10. What is older is dropped and leaves no trace: a dispatch on a history
  gives the same result and makes the same call as a dispatch on its last ten messages
  alone.
\<close>

theorem context_is_last_ten:
  "length (slice_from h (- MAX_CONTEXT_MESSAGES)) \<le> 10
   \<and> slice_from h (- MAX_CONTEXT_MESSAGES) = drop (length h - 10) h
   \<and> (length h = 15 \<longrightarrow> slice_from h (- MAX_CONTEXT_MESSAGES) = drop 5 h
        \<and> length (drop 5 h) = 10)
   \<and> openai_messages env u h f =
        \<lparr>role = ''system'', content = openai_system_prompt env f\<rparr>
          # slice_from h (- MAX_CONTEXT_MESSAGES) @ [\<lparr>role = ''user'', content = u\<rparr>]
   \<and> hf_prompt env u h f =
        hf_prompt_head env f
          @ concat (map (\<lambda>m. (if role m = ''user'' then ''User: '' else ''Assistant: '')
                              @ content m @ [CHR 0x0A])
                      (slice_from h (- MAX_CONTEXT_MESSAGES)))
          @ ''User: '' @ u @ [CHR 0x0A] @ ''Assistant: ''
   \<and> (secrets env ''OPENAI_API_KEY'' = Some k \<and> openai_client_init env k = None \<longrightarrow>
        snd (send_message_to_openai env u h f) = [OpenAI_Call (openai_request_of env k u h f)]
        \<and> oa_messages (openai_request_of env k u h f) =
            \<lparr>role = ''system'', content = openai_system_prompt env f\<rparr>
              # drop (length h - 10) h @ [\<lparr>role = ''user'', content = u\<rparr>])
   \<and> (secrets env ''HF_API_KEY'' = Some k' \<longrightarrow>
        snd (send_message_to_huggingface env u h f) = [HF_Call (hf_request_of env k' u h f)]
        \<and> hf_inputs (hf_request_of env k' u h f) =
            hf_prompt_head env f
              @ concat (map (\<lambda>m. (if role m = ''user'' then ''User: '' else ''Assistant: '')
                                  @ content m @ [CHR 0x0A])
                          (drop (length h - 10) h))
              @ ''User: '' @ u @ [CHR 0x0A] @ ''Assistant: '')
   \<and> (length recent = 10 \<longrightarrow>
        send_message_to_ai env u (old @ recent) f = send_message_to_ai env u recent f)"
proof -
  have a: "length (slice_from h (- MAX_CONTEXT_MESSAGES)) \<le> 10"
    by (simp add: slice_from_recent)
  have b: "slice_from h (- MAX_CONTEXT_MESSAGES) = drop (length h - 10) h"
    by (rule slice_from_recent)
  have c: "length h = 15 \<longrightarrow> slice_from h (- MAX_CONTEXT_MESSAGES) = drop 5 h
        \<and> length (drop 5 h) = 10"
    by (simp add: slice_from_recent)
  have d: "openai_messages env u h f =
        \<lparr>role = ''system'', content = openai_system_prompt env f\<rparr>
          # slice_from h (- MAX_CONTEXT_MESSAGES) @ [\<lparr>role = ''user'', content = u\<rparr>]"
    by (simp add: openai_messages_eq slice_from_recent)
  have e: "hf_prompt env u h f =
        hf_prompt_head env f
          @ concat (map (\<lambda>m. (if role m = ''user'' then ''User: '' else ''Assistant: '')
                              @ content m @ [CHR 0x0A])
                      (slice_from h (- MAX_CONTEXT_MESSAGES)))
          @ ''User: '' @ u @ [CHR 0x0A] @ ''Assistant: ''"
    by (simp add: hf_prompt_eq slice_from_recent hf_lines newline_def)
  have g: "secrets env ''OPENAI_API_KEY'' = Some k \<and> openai_client_init env k = None \<longrightarrow>
        snd (send_message_to_openai env u h f) = [OpenAI_Call (openai_request_of env k u h f)]
        \<and> oa_messages (openai_request_of env k u h f) =
            \<lparr>role = ''system'', content = openai_system_prompt env f\<rparr>
              # drop (length h - 10) h @ [\<lparr>role = ''user'', content = u\<rparr>]"
    by (simp add: openai_calls openai_request_of_def openai_messages_eq)
  have i: "secrets env ''HF_API_KEY'' = Some k' \<longrightarrow>
        snd (send_message_to_huggingface env u h f) = [HF_Call (hf_request_of env k' u h f)]
        \<and> hf_inputs (hf_request_of env k' u h f) =
            hf_prompt_head env f
              @ concat (map (\<lambda>m. (if role m = ''user'' then ''User: '' else ''Assistant: '')
                                  @ content m @ [CHR 0x0A])
                          (drop (length h - 10) h))
              @ ''User: '' @ u @ [CHR 0x0A] @ ''Assistant: ''"
    by (simp add: hf_calls hf_request_of_def hf_prompt_eq hf_lines newline_def)
  have j: "length recent = 10 \<longrightarrow>
        send_message_to_ai env u (old @ recent) f = send_message_to_ai env u recent f"
  proof
    assume len: "length recent = 10"
    have "openai_messages env u (old @ recent) f = openai_messages env u recent f"
      using len by (simp add: openai_messages_eq)
    moreover have "hf_prompt env u (old @ recent) f = hf_prompt env u recent f"
      using len by (simp add: hf_prompt_eq)
    ultimately show "send_message_to_ai env u (old @ recent) f = send_message_to_ai env u recent f"
      using openai_depends_on_messages [of env u "old @ recent" f recent]
        hf_depends_on_prompt [of env u "old @ recent" f recent]
      by (simp add: send_message_to_ai_def)
  qed
  from a b c d e g i j show ?thesis
    by (intro conjI)
qed

theorem context_is_last_ten_witness:
  "map content (slice_from sample_history (- MAX_CONTEXT_MESSAGES))
     = [''m6'', ''m7'', ''m8'', ''m9'', ''m10'', ''m11'', ''m12'', ''m13'', ''m14'', ''m15'']
   \<and> snd (send_message_to_openai
        (fixed_world [(''OPENAI_API_KEY'', ''sk''), (''HF_API_KEY'', ''hf'')] ''openai''
           (OpenAI_Content ''ok'') (HF_Response 200 (Generated ''ok'')))
        ''q'' sample_history False)
     = [OpenAI_Call (openai_request_of
        (fixed_world [(''OPENAI_API_KEY'', ''sk''), (''HF_API_KEY'', ''hf'')] ''openai''
           (OpenAI_Content ''ok'') (HF_Response 200 (Generated ''ok'')))
        ''sk'' ''q'' sample_history False)]
   \<and> oa_messages (openai_request_of
        (fixed_world [(''OPENAI_API_KEY'', ''sk''), (''HF_API_KEY'', ''hf'')] ''openai''
           (OpenAI_Content ''ok'') (HF_Response 200 (Generated ''ok'')))
        ''sk'' ''q'' sample_history False)
     = [\<lparr>role = ''system'',
         content = openai_system_prompt
           (fixed_world [(''OPENAI_API_KEY'', ''sk''), (''HF_API_KEY'', ''hf'')] ''openai''
              (OpenAI_Content ''ok'') (HF_Response 200 (Generated ''ok''))) False\<rparr>,
        \<lparr>role = ''assistant'', content = ''m6''\<rparr>, \<lparr>role = ''user'', content = ''m7''\<rparr>,
        \<lparr>role = ''assistant'', content = ''m8''\<rparr>, \<lparr>role = ''user'', content = ''m9''\<rparr>,
        \<lparr>role = ''assistant'', content = ''m10''\<rparr>, \<lparr>role = ''user'', content = ''m11''\<rparr>,
        \<lparr>role = ''assistant'', content = ''m12''\<rparr>, \<lparr>role = ''user'', content = ''m13''\<rparr>,
        \<lparr>role = ''assistant'', content = ''m14''\<rparr>, \<lparr>role = ''user'', content = ''m15''\<rparr>,
        \<lparr>role = ''user'', content = ''q''\<rparr>]
   \<and> snd (send_message_to_huggingface
        (fixed_world [(''OPENAI_API_KEY'', ''sk''), (''HF_API_KEY'', ''hf'')] ''openai''
           (OpenAI_Content ''ok'') (HF_Response 200 (Generated ''ok'')))
        ''q'' sample_history False)
     = [HF_Call (hf_request_of
        (fixed_world [(''OPENAI_API_KEY'', ''sk''), (''HF_API_KEY'', ''hf'')] ''openai''
           (OpenAI_Content ''ok'') (HF_Response 200 (Generated ''ok'')))
        ''hf'' ''q'' sample_history False)]
   \<and> hf_inputs (hf_request_of
        (fixed_world [(''OPENAI_API_KEY'', ''sk''), (''HF_API_KEY'', ''hf'')] ''openai''
           (OpenAI_Content ''ok'') (HF_Response 200 (Generated ''ok'')))
        ''hf'' ''q'' sample_history False)
     = hf_prompt_head
         (fixed_world [(''OPENAI_API_KEY'', ''sk''), (''HF_API_KEY'', ''hf'')] ''openai''
            (OpenAI_Content ''ok'') (HF_Response 200 (Generated ''ok''))) False
       @ ''Assistant: m6'' @ [CHR 0x0A] @ ''User: m7'' @ [CHR 0x0A]
       @ ''Assistant: m8'' @ [CHR 0x0A] @ ''User: m9'' @ [CHR 0x0A]
       @ ''Assistant: m10'' @ [CHR 0x0A] @ ''User: m11'' @ [CHR 0x0A]
       @ ''Assistant: m12'' @ [CHR 0x0A] @ ''User: m13'' @ [CHR 0x0A]
       @ ''Assistant: m14'' @ [CHR 0x0A] @ ''User: m15'' @ [CHR 0x0A]
       @ ''User: q'' @ [CHR 0x0A] @ ''Assistant: ''
   \<and> send_message_to_ai
        (fixed_world [(''OPENAI_API_KEY'', ''sk''), (''HF_API_KEY'', ''hf'')] ''openai''
           (OpenAI_Content ''ok'') (HF_Response 200 (Generated ''ok'')))
        ''q'' sample_history False
     = send_message_to_ai
        (fixed_world [(''OPENAI_API_KEY'', ''sk''), (''HF_API_KEY'', ''hf'')] ''openai''
           (OpenAI_Content ''ok'') (HF_Response 200 (Generated ''ok'')))
        ''q'' (drop 5 sample_history) False"
proof -
  let ?w = "fixed_world [(''OPENAI_API_KEY'', ''sk''), (''HF_API_KEY'', ''hf'')] ''openai''
           (OpenAI_Content ''ok'') (HF_Response 200 (Generated ''ok''))"
  let ?h = "sample_history"
  have len: "length ?h = 15" and len': "length (drop 5 ?h) = 10"
    by (simp_all add: sample_history_def)
  have split: "take 5 ?h @ drop 5 ?h = ?h"
    by (rule append_take_drop_id)
  have dropped: "drop (length ?h - 10) ?h = drop 5 ?h"
    by (simp add: len)
  have tail: "drop 5 ?h =
       [\<lparr>role = ''assistant'', content = ''m6''\<rparr>, \<lparr>role = ''user'', content = ''m7''\<rparr>,
        \<lparr>role = ''assistant'', content = ''m8''\<rparr>, \<lparr>role = ''user'', content = ''m9''\<rparr>,
        \<lparr>role = ''assistant'', content = ''m10''\<rparr>, \<lparr>role = ''user'', content = ''m11''\<rparr>,
        \<lparr>role = ''assistant'', content = ''m12''\<rparr>, \<lparr>role = ''user'', content = ''m13''\<rparr>,
        \<lparr>role = ''assistant'', content = ''m14''\<rparr>, \<lparr>role = ''user'', content = ''m15''\<rparr>]"
    by (simp add: sample_history_def)
  have key: "secrets ?w ''OPENAI_API_KEY'' = Some ''sk'' \<and> openai_client_init ?w ''sk'' = None"
    and key': "secrets ?w ''HF_API_KEY'' = Some ''hf''"
    by (simp_all add: fixed_world_def)
  note inst = context_is_last_ten [of ?h ?w "''q''" False "''sk''" "''hf''" "drop 5 ?h" "take 5 ?h"]
  from inst len have slice: "slice_from ?h (- MAX_CONTEXT_MESSAGES) = drop 5 ?h"
    by blast
  have one: "map content (slice_from ?h (- MAX_CONTEXT_MESSAGES))
      = [''m6'', ''m7'', ''m8'', ''m9'', ''m10'', ''m11'', ''m12'', ''m13'', ''m14'', ''m15'']"
    unfolding slice tail by simp
  from inst key have sent: "snd (send_message_to_openai ?w ''q'' ?h False)
      = [OpenAI_Call (openai_request_of ?w ''sk'' ''q'' ?h False)]"
    and msgs: "oa_messages (openai_request_of ?w ''sk'' ''q'' ?h False)
      = \<lparr>role = ''system'', content = openai_system_prompt ?w False\<rparr>
          # drop (length ?h - 10) ?h @ [\<lparr>role = ''user'', content = ''q''\<rparr>]"
    by blast+
  have two: "oa_messages (openai_request_of ?w ''sk'' ''q'' ?h False)
      = [\<lparr>role = ''system'', content = openai_system_prompt ?w False\<rparr>,
        \<lparr>role = ''assistant'', content = ''m6''\<rparr>, \<lparr>role = ''user'', content = ''m7''\<rparr>,
        \<lparr>role = ''assistant'', content = ''m8''\<rparr>, \<lparr>role = ''user'', content = ''m9''\<rparr>,
        \<lparr>role = ''assistant'', content = ''m10''\<rparr>, \<lparr>role = ''user'', content = ''m11''\<rparr>,
        \<lparr>role = ''assistant'', content = ''m12''\<rparr>, \<lparr>role = ''user'', content = ''m13''\<rparr>,
        \<lparr>role = ''assistant'', content = ''m14''\<rparr>, \<lparr>role = ''user'', content = ''m15''\<rparr>,
        \<lparr>role = ''user'', content = ''q''\<rparr>]"
    unfolding msgs dropped tail by simp
  from inst key' have sent': "snd (send_message_to_huggingface ?w ''q'' ?h False)
      = [HF_Call (hf_request_of ?w ''hf'' ''q'' ?h False)]"
    and prompt: "hf_inputs (hf_request_of ?w ''hf'' ''q'' ?h False)
      = hf_prompt_head ?w False
          @ concat (map (\<lambda>m. (if role m = ''user'' then ''User: '' else ''Assistant: '')
                              @ content m @ [CHR 0x0A])
                      (drop (length ?h - 10) ?h))
          @ ''User: '' @ ''q'' @ [CHR 0x0A] @ ''Assistant: ''"
    by blast+
  have three: "hf_inputs (hf_request_of ?w ''hf'' ''q'' ?h False)
     = hf_prompt_head ?w False
       @ ''Assistant: m6'' @ [CHR 0x0A] @ ''User: m7'' @ [CHR 0x0A]
       @ ''Assistant: m8'' @ [CHR 0x0A] @ ''User: m9'' @ [CHR 0x0A]
       @ ''Assistant: m10'' @ [CHR 0x0A] @ ''User: m11'' @ [CHR 0x0A]
       @ ''Assistant: m12'' @ [CHR 0x0A] @ ''User: m13'' @ [CHR 0x0A]
       @ ''Assistant: m14'' @ [CHR 0x0A] @ ''User: m15'' @ [CHR 0x0A]
       @ ''User: q'' @ [CHR 0x0A] @ ''Assistant: ''"
    unfolding prompt dropped tail by simp
  from inst len' have "send_message_to_ai ?w ''q'' (take 5 ?h @ drop 5 ?h) False
      = send_message_to_ai ?w ''q'' (drop 5 ?h) False"
    by blast
  then have same: "send_message_to_ai ?w ''q'' ?h False
      = send_message_to_ai ?w ''q'' (drop 5 ?h) False"
    by (simp only: split)
  from one sent two sent' three same show ?thesis
    by (intro conjI)
qed

section \<open>Generation parameters\<close>

text \<open>
  Claim C5. The sampling temperature and the bound on the output that an adapter sends
  depend on the research flag alone, whatever the message, the history and the world:
  temperature 0.5 in research mode and 0.7 otherwise for both adapters; output bound 2500
  (research) and 1000 (normal) for the chat adapter, 1500 and 500 for the completion
  adapter. Every call that a dispatch makes carries these values.
\<close>

theorem generation_parameters:
  "(secrets env ''OPENAI_API_KEY'' = Some k \<and> openai_client_init env k = None \<longrightarrow>
      map call_temperature (snd (send_message_to_openai env u h f)) = [if f then 0.5 else 0.7]
      \<and> map call_max_output (snd (send_message_to_openai env u h f))
          = [if f then 2500 else 1000])
   \<and> (secrets env ''HF_API_KEY'' = Some k' \<longrightarrow>
      map call_temperature (snd (send_message_to_huggingface env u h f))
          = [if f then 0.5 else 0.7]
      \<and> map call_max_output (snd (send_message_to_huggingface env u h f))
          = [if f then 1500 else 500])
   \<and> (\<forall>c \<in> set (snd (send_message_to_ai env u h f)).
        call_temperature c = (if f then 0.5 else 0.7)
        \<and> call_max_output c =
            (if selected_api_provider env = ''openai''
             then (if f then 2500 else 1000) else (if f then 1500 else 500)))"
proof (intro conjI impI ballI)
  assume "secrets env ''OPENAI_API_KEY'' = Some k \<and> openai_client_init env k = None"
  then have "snd (send_message_to_openai env u h f) = [OpenAI_Call (openai_request_of env k u h f)]"
    by (simp add: openai_calls)
  then show "map call_temperature (snd (send_message_to_openai env u h f)) = [if f then 0.5 else 0.7]"
    and "map call_max_output (snd (send_message_to_openai env u h f)) = [if f then 2500 else 1000]"
    by (simp_all add: openai_request_of_def)
next
  assume "secrets env ''HF_API_KEY'' = Some k'"
  then have "snd (send_message_to_huggingface env u h f) = [HF_Call (hf_request_of env k' u h f)]"
    by (simp add: hf_calls)
  then show "map call_temperature (snd (send_message_to_huggingface env u h f))
          = [if f then 0.5 else 0.7]"
    and "map call_max_output (snd (send_message_to_huggingface env u h f))
          = [if f then 1500 else 500]"
    by (simp_all add: hf_request_of_def)
next
  fix c assume c: "c \<in> set (snd (send_message_to_ai env u h f))"
  show "call_temperature c = (if f then 0.5 else 0.7)"
    using c openai_calls_cases [of env u h f] hf_calls_cases [of env u h f]
    by (auto simp: send_message_to_ai_def openai_request_of_def hf_request_of_def
        split: if_splits)
  show "call_max_output c =
            (if selected_api_provider env = ''openai''
             then (if f then 2500 else 1000) else (if f then 1500 else 500))"
    using c openai_calls_cases [of env u h f] hf_calls_cases [of env u h f]
    by (auto simp: send_message_to_ai_def openai_request_of_def hf_request_of_def
        split: if_splits)
qed

theorem generation_parameters_witness:
  "map call_temperature (snd (send_message_to_openai
      (fixed_world [(''OPENAI_API_KEY'', ''sk''), (''HF_API_KEY'', ''hf'')] ''openai''
         (OpenAI_Content ''ok'') (HF_Response 200 (Generated ''ok''))) ''q'' [] True)) = [5 / 10]
   \<and> map call_max_output (snd (send_message_to_openai
      (fixed_world [(''OPENAI_API_KEY'', ''sk''), (''HF_API_KEY'', ''hf'')] ''openai''
         (OpenAI_Content ''ok'') (HF_Response 200 (Generated ''ok''))) ''q'' [] True)) = [2500]
   \<and> map call_temperature (snd (send_message_to_huggingface
      (fixed_world [(''OPENAI_API_KEY'', ''sk''), (''HF_API_KEY'', ''hf'')] ''openai''
         (OpenAI_Content ''ok'') (HF_Response 200 (Generated ''ok''))) ''q'' [] False)) = [7 / 10]
   \<and> map call_max_output (snd (send_message_to_huggingface
      (fixed_world [(''OPENAI_API_KEY'', ''sk''), (''HF_API_KEY'', ''hf'')] ''openai''
         (OpenAI_Content ''ok'') (HF_Response 200 (Generated ''ok''))) ''q'' [] False)) = [500]
   \<and> map call_max_output (snd (send_message_to_ai
      (fixed_world [(''OPENAI_API_KEY'', ''sk''), (''HF_API_KEY'', ''hf'')] ''openai''
         (OpenAI_Content ''ok'') (HF_Response 200 (Generated ''ok''))) ''q'' [] False)) = [1000]"
proof -
  let ?w = "fixed_world [(''OPENAI_API_KEY'', ''sk''), (''HF_API_KEY'', ''hf'')] ''openai''
         (OpenAI_Content ''ok'') (HF_Response 200 (Generated ''ok''))"
  have key: "secrets ?w ''OPENAI_API_KEY'' = Some ''sk'' \<and> openai_client_init ?w ''sk'' = None"
    and key': "secrets ?w ''HF_API_KEY'' = Some ''hf''"
    and prov: "selected_api_provider ?w = ''openai''"
    by (simp_all add: fixed_world_def)
  from generation_parameters [of ?w "''sk''" "''q''" "[]" True "''hf''"] key
  have a: "map call_temperature (snd (send_message_to_openai ?w ''q'' [] True)) = [5 / 10]"
    and b: "map call_max_output (snd (send_message_to_openai ?w ''q'' [] True)) = [2500]"
    by simp_all
  note inst = generation_parameters [of ?w "''sk''" "''q''" "[]" False "''hf''"]
  from inst key'
  have c: "map call_temperature (snd (send_message_to_huggingface ?w ''q'' [] False)) = [7 / 10]"
    and d: "map call_max_output (snd (send_message_to_huggingface ?w ''q'' [] False)) = [500]"
    by simp_all
  have sent: "snd (send_message_to_ai ?w ''q'' [] False)
      = [OpenAI_Call (openai_request_of ?w ''sk'' ''q'' [] False)]"
    using key prov by (simp add: send_message_to_ai_def openai_calls)
  from inst have "\<forall>c \<in> set (snd (send_message_to_ai ?w ''q'' [] False)).
      call_max_output c =
        (if selected_api_provider ?w = ''openai''
         then (if False then 2500 else 1000) else (if False then 1500 else 500))"
    by blast
  then have e: "map call_max_output (snd (send_message_to_ai ?w ''q'' [] False)) = [1000]"
    unfolding sent using prov by simp
  from a b c d e show ?thesis by (intro conjI)
qed

section \<open>A missing credential\<close>

lemma starts_with_append: "starts_with (sub @ s) sub"
  by (induction sub) simp_all

lemma str_in_append: "str_in sub s \<Longrightarrow> str_in sub (p @ s)"
  by (induction p) simp_all

lemma str_in_prefix: "str_in sub (sub @ s)"
proof (cases "sub @ s")
  case Nil
  then show ?thesis by simp
next
  case (Cons a l)
  have "starts_with (sub @ s) sub" by (rule starts_with_append)
  then have "starts_with (a # l) sub" by (simp only: Cons)
  then have "str_in sub (a # l)" by simp
  then show ?thesis by (simp only: Cons)
qed

lemma str_in_middle: "str_in sub (p @ sub @ s)"
  by (rule str_in_append [OF str_in_prefix])

text \<open>
  Claim C6. When the key of an adapter is not in the secrets, the adapter returns
  \<^verbatim>\<open>success = False\<close> with a message that names the missing key
  (\<^verbatim>\<open>OPENAI_API_KEY\<close> or \<^verbatim>\<open>HF_API_KEY\<close>), and it has made no call: the list of
  calls is empty and the result does not depend on either provider.
\<close>

theorem missing_credential:
  "(secrets env ''OPENAI_API_KEY'' = None \<longrightarrow>
      send_message_to_openai env u h f =
        (\<lparr>success = False,
          response = cross_mark @ '' OpenAI API key not found. Please set OPENAI_API_KEY in .streamlit/secrets.toml''\<rparr>,
         [])
      \<and> str_in ''OPENAI_API_KEY'' (response (fst (send_message_to_openai env u h f))))
   \<and> (secrets env ''HF_API_KEY'' = None \<longrightarrow>
      send_message_to_huggingface env u h f =
        (\<lparr>success = False,
          response = cross_mark @ '' Hugging Face API key not found. Please set HF_API_KEY in .streamlit/secrets.toml''\<rparr>,
         [])
      \<and> str_in ''HF_API_KEY'' (response (fst (send_message_to_huggingface env u h f))))"
proof (intro conjI impI)
  assume none: "secrets env ''OPENAI_API_KEY'' = None"
  then show r: "send_message_to_openai env u h f =
        (\<lparr>success = False,
          response = cross_mark @ '' OpenAI API key not found. Please set OPENAI_API_KEY in .streamlit/secrets.toml''\<rparr>,
         [])"
    by (simp add: send_message_to_openai_def openai_key)
  have "str_in ''OPENAI_API_KEY''
     ((cross_mark @ '' OpenAI API key not found. Please set '') @ ''OPENAI_API_KEY''
        @ '' in .streamlit/secrets.toml'')"
    by (rule str_in_middle)
  then show "str_in ''OPENAI_API_KEY'' (response (fst (send_message_to_openai env u h f)))"
    by (simp add: r)
next
  assume none: "secrets env ''HF_API_KEY'' = None"
  then show r: "send_message_to_huggingface env u h f =
        (\<lparr>success = False,
          response = cross_mark @ '' Hugging Face API key not found. Please set HF_API_KEY in .streamlit/secrets.toml''\<rparr>,
         [])"
    by (simp add: send_message_to_huggingface_def hf_key)
  have "str_in ''HF_API_KEY''
     ((cross_mark @ '' Hugging Face API key not found. Please set '') @ ''HF_API_KEY''
        @ '' in .streamlit/secrets.toml'')"
    by (rule str_in_middle)
  then show "str_in ''HF_API_KEY'' (response (fst (send_message_to_huggingface env u h f)))"
    by (simp add: r)
qed

theorem missing_credential_witness:
  "send_message_to_openai
      (fixed_world [] ''openai'' (OpenAI_Content ''ok'') (HF_Response 200 (Generated ''ok'')))
      ''q'' [] False
     = (\<lparr>success = False,
          response = cross_mark @ '' OpenAI API key not found. Please set OPENAI_API_KEY in .streamlit/secrets.toml''\<rparr>,
        [])
   \<and> send_message_to_huggingface
      (fixed_world [] ''openai'' (OpenAI_Content ''ok'') (HF_Response 200 (Generated ''ok'')))
      ''q'' [] False
     = (\<lparr>success = False,
          response = cross_mark @ '' Hugging Face API key not found. Please set HF_API_KEY in .streamlit/secrets.toml''\<rparr>,
        [])"
proof -
  let ?w = "fixed_world [] ''openai'' (OpenAI_Content ''ok'') (HF_Response 200 (Generated ''ok''))"
  have none: "secrets ?w ''OPENAI_API_KEY'' = None" and none': "secrets ?w ''HF_API_KEY'' = None"
    by (simp_all add: fixed_world_def)
  from missing_credential [of ?w "''q''" "[]" False] none none' show ?thesis
    by blast
qed

section \<open>Failures of the providers\<close>










section \<open>The user message in the forwarded list\<close>

lemma current_project_has_name:
  "get_current_project m = Some p \<Longrightarrow> \<exists>key. current_project_name m = Some key"
  by (cases "current_project_name m") (simp_all add: get_current_project_def)

lemma render_chat_interface_calls:
  assumes "get_current_project m = Some p" and "u \<noteq> []"
  shows "snd (render_chat_interface env m (Some u))
     = snd (send_message_to_ai env u (messages p @ [\<lparr>role = ''user'', content = u\<rparr>])
              (deep_research_mode p))"
proof -
  obtain key where "current_project_name m = Some key"
    using current_project_has_name [OF assms(1)] by blast
  then show ?thesis
    using assms
    by (simp add: render_chat_interface_def Let_def add_message_def get_messages_def
        split: prod.splits)
qed

text \<open>
  Claim C10. \<^verbatim>\<open>render_chat_interface\<close> appends the input of the user to the active
  project and only then reads the history that it hands to the dispatcher; each adapter
  appends the same input once more after the history. So when the project held fewer than
  ten messages, what goes to the provider is the whole earlier history followed by the new
  user message twice: as the last two messages of the chat adapter's list, and as the last
  two \<^verbatim>\<open>User:\<close> lines of the completion adapter's prompt.
\<close>

theorem user_message_sent_twice:
  assumes "get_current_project m = Some p" and "u \<noteq> []" and "length (messages p) < 10"
  shows "(selected_api_provider env = ''openai'' \<and> secrets env ''OPENAI_API_KEY'' = Some k
        \<and> openai_client_init env k = None \<longrightarrow>
      snd (render_chat_interface env m (Some u))
        = [OpenAI_Call (openai_request_of env k u
             (messages p @ [\<lparr>role = ''user'', content = u\<rparr>]) (deep_research_mode p))]
      \<and> oa_messages (openai_request_of env k u
             (messages p @ [\<lparr>role = ''user'', content = u\<rparr>]) (deep_research_mode p))
        = \<lparr>role = ''system'', content = openai_system_prompt env (deep_research_mode p)\<rparr>
            # messages p
            @ [\<lparr>role = ''user'', content = u\<rparr>, \<lparr>role = ''user'', content = u\<rparr>])
    \<and> (selected_api_provider env \<noteq> ''openai'' \<and> secrets env ''HF_API_KEY'' = Some k' \<longrightarrow>
      snd (render_chat_interface env m (Some u))
        = [HF_Call (hf_request_of env k' u
             (messages p @ [\<lparr>role = ''user'', content = u\<rparr>]) (deep_research_mode p))]
      \<and> hf_inputs (hf_request_of env k' u
             (messages p @ [\<lparr>role = ''user'', content = u\<rparr>]) (deep_research_mode p))
        = hf_prompt_head env (deep_research_mode p) @ concat (map hf_line (messages p))
            @ ''User: '' @ u @ newline @ ''User: '' @ u @ newline @ ''Assistant: '')"
proof (intro conjI impI)
  let ?um = "\<lparr>role = ''user'', content = u\<rparr>"
  let ?h = "messages p @ [?um]"
  let ?f = "deep_research_mode p"
  have whole: "drop (length ?h - 10) ?h = ?h"
    using assms(3) by simp
  {
    assume a: "selected_api_provider env = ''openai'' \<and> secrets env ''OPENAI_API_KEY'' = Some k
        \<and> openai_client_init env k = None"
    then show "snd (render_chat_interface env m (Some u)) = [OpenAI_Call (openai_request_of env k u ?h ?f)]"
      using render_chat_interface_calls [OF assms(1,2), of env]
      by (simp add: send_message_to_ai_def openai_calls)
    show "oa_messages (openai_request_of env k u ?h ?f)
        = \<lparr>role = ''system'', content = openai_system_prompt env ?f\<rparr> # messages p @ [?um, ?um]"
      using whole by (simp add: openai_request_of_def openai_messages_eq)
  }
  {
    assume a: "selected_api_provider env \<noteq> ''openai'' \<and> secrets env ''HF_API_KEY'' = Some k'"
    then show "snd (render_chat_interface env m (Some u)) = [HF_Call (hf_request_of env k' u ?h ?f)]"
      using render_chat_interface_calls [OF assms(1,2), of env]
      by (simp add: send_message_to_ai_def hf_calls)
    show "hf_inputs (hf_request_of env k' u ?h ?f)
        = hf_prompt_head env ?f @ concat (map hf_line (messages p))
            @ ''User: '' @ u @ newline @ ''User: '' @ u @ newline @ ''Assistant: ''"
      using whole by (simp add: hf_request_of_def hf_prompt_eq hf_line_def)
  }
qed

theorem user_message_sent_twice_witness:
  "map content (oa_messages (openai_request_of
      (fixed_world [(''OPENAI_API_KEY'', ''sk'')] ''openai'' (OpenAI_Content ''ok'') HF_Timeout)
      ''sk'' ''second''
      (messages \<lparr>name = ''General Questions'',
          messages = [\<lparr>role = ''user'', content = ''first''\<rparr>,
                      \<lparr>role = ''assistant'', content = ''ok''\<rparr>],
          created_date = ''t0'', deep_research_mode = False, message_count = 2\<rparr>
        @ [\<lparr>role = ''user'', content = ''second''\<rparr>])
      False))
   = [openai_system_prompt
        (fixed_world [(''OPENAI_API_KEY'', ''sk'')] ''openai'' (OpenAI_Content ''ok'') HF_Timeout)
        False,
      ''first'', ''ok'', ''second'', ''second'']
   \<and> snd (render_chat_interface
      (fixed_world [(''OPENAI_API_KEY'', ''sk'')] ''openai'' (OpenAI_Content ''ok'') HF_Timeout)
      (fst (render_chat_interface
         (fixed_world [(''OPENAI_API_KEY'', ''sk'')] ''openai'' (OpenAI_Content ''ok'') HF_Timeout)
         (snd (create_project ''t0'' ProjectManager_init ''General Questions''))
         (Some ''first'')))
      (Some ''second''))
   = [OpenAI_Call (openai_request_of
      (fixed_world [(''OPENAI_API_KEY'', ''sk'')] ''openai'' (OpenAI_Content ''ok'') HF_Timeout)
      ''sk'' ''second''
      (messages \<lparr>name = ''General Questions'',
          messages = [\<lparr>role = ''user'', content = ''first''\<rparr>,
                      \<lparr>role = ''assistant'', content = ''ok''\<rparr>],
          created_date = ''t0'', deep_research_mode = False, message_count = 2\<rparr>
        @ [\<lparr>role = ''user'', content = ''second''\<rparr>])
      False)]
   \<and> hf_inputs (hf_request_of
      (fixed_world [(''HF_API_KEY'', ''hf'')] ''huggingface'' (OpenAI_Content ''ok'')
         (HF_Response 200 (Generated ''ok'')))
      ''hf'' ''second''
      (messages \<lparr>name = ''General Questions'',
          messages = [\<lparr>role = ''user'', content = ''first''\<rparr>,
                      \<lparr>role = ''assistant'', content = ''ok''\<rparr>],
          created_date = ''t0'', deep_research_mode = False, message_count = 2\<rparr>
        @ [\<lparr>role = ''user'', content = ''second''\<rparr>])
      False)
   = hf_prompt_head
      (fixed_world [(''HF_API_KEY'', ''hf'')] ''huggingface'' (OpenAI_Content ''ok'')
         (HF_Response 200 (Generated ''ok''))) False
     @ ''User: first'' @ newline @ ''Assistant: ok'' @ newline
     @ ''User: second'' @ newline @ ''User: second'' @ newline @ ''Assistant: ''"
proof -
  let ?w = "fixed_world [(''OPENAI_API_KEY'', ''sk'')] ''openai'' (OpenAI_Content ''ok'') HF_Timeout"
  let ?w' = "fixed_world [(''HF_API_KEY'', ''hf'')] ''huggingface'' (OpenAI_Content ''ok'')
         (HF_Response 200 (Generated ''ok''))"
  let ?m0 = "snd (create_project ''t0'' ProjectManager_init ''General Questions'')"
  let ?m1 = "fst (render_chat_interface ?w ?m0 (Some ''first''))"
  let ?p = "\<lparr>name = ''General Questions'',
          messages = [\<lparr>role = ''user'', content = ''first''\<rparr>,
                      \<lparr>role = ''assistant'', content = ''ok''\<rparr>],
          created_date = ''t0'', deep_research_mode = False, message_count = 2\<rparr>"
  have strip: "ascii_strip ''ok'' = ''ok''"
    by code_simp
  have m0: "?m0 = \<lparr>projects = [(''General Questions'',
                 ConversationProject_init ''t0'' ''General Questions'')],
               current_project_name = Some ''General Questions''\<rparr>"
    by (simp add: create_project_def ProjectManager_init_def dict_contains_def dict_keys_def
        Let_def)
  have m1: "?m1 = \<lparr>projects = [(''General Questions'', ?p)],
               current_project_name = Some ''General Questions''\<rparr>"
    unfolding m0
    by (simp add: render_chat_interface_def get_current_project_def dict_contains_def
        dict_keys_def dict_get_def add_message_def get_messages_def ConversationProject_init_def
        send_message_to_ai_def send_message_to_openai_def get_api_key_def fixed_world_def
        Let_def strip)
  have cur: "get_current_project ?m1 = Some ?p"
    unfolding m1 by (simp add: get_current_project_def dict_contains_def dict_keys_def dict_get_def)
  have ne: "''second'' \<noteq> []" and short: "length (messages ?p) < 10"
    by simp_all
  have key: "selected_api_provider ?w = ''openai'' \<and> secrets ?w ''OPENAI_API_KEY'' = Some ''sk''
        \<and> openai_client_init ?w ''sk'' = None"
    and key': "selected_api_provider ?w' \<noteq> ''openai'' \<and> secrets ?w' ''HF_API_KEY'' = Some ''hf''"
    by (simp_all add: fixed_world_def)
  from user_message_sent_twice [OF cur ne short, of ?w "''sk''"] key
  have sent: "snd (render_chat_interface ?w ?m1 (Some ''second''))
        = [OpenAI_Call (openai_request_of ?w ''sk'' ''second''
             (messages ?p @ [\<lparr>role = ''user'', content = ''second''\<rparr>]) False)]"
    and msgs: "oa_messages (openai_request_of ?w ''sk'' ''second''
             (messages ?p @ [\<lparr>role = ''user'', content = ''second''\<rparr>]) False)
        = \<lparr>role = ''system'', content = openai_system_prompt ?w False\<rparr>
            # messages ?p
            @ [\<lparr>role = ''user'', content = ''second''\<rparr>,
               \<lparr>role = ''user'', content = ''second''\<rparr>]"
    by simp_all
  have one: "map content (oa_messages (openai_request_of ?w ''sk'' ''second''
             (messages ?p @ [\<lparr>role = ''user'', content = ''second''\<rparr>]) False))
        = [openai_system_prompt ?w False, ''first'', ''ok'', ''second'', ''second'']"
    unfolding msgs by simp
  from user_message_sent_twice [OF cur ne short, of ?w' _ "''hf''"] key'
  have "hf_inputs (hf_request_of ?w' ''hf'' ''second''
             (messages ?p @ [\<lparr>role = ''user'', content = ''second''\<rparr>]) False)
        = hf_prompt_head ?w' False @ concat (map hf_line (messages ?p))
            @ ''User: '' @ ''second'' @ newline @ ''User: '' @ ''second'' @ newline @ ''Assistant: ''"
    by simp
  then have three: "hf_inputs (hf_request_of ?w' ''hf'' ''second''
             (messages ?p @ [\<lparr>role = ''user'', content = ''second''\<rparr>]) False)
        = hf_prompt_head ?w' False
          @ ''User: first'' @ newline @ ''Assistant: ok'' @ newline
          @ ''User: second'' @ newline @ ''User: second'' @ newline @ ''Assistant: ''"
    by (simp add: hf_line_def)
  from one sent three show ?thesis by (intro conjI)
qed

end
